theory Spec2Isabelle
  imports Main "HOL-Library.Word"
begin

section \<open>The SFT wrapper of massa-standards\<close>

text \<open>
  The development embeds \<^verbatim>\<open>smart-contracts/assembly/contracts/SFT/SFTWrapper.ts\<close>: a class
  holding one address, with eleven methods that each make one cross-contract call and
  decode what comes back.

  The class is the only source file. What it imports is not part of it:
  \<^item> \<^verbatim>\<open>call\<close> and \<^verbatim>\<open>Address\<close> of \<^verbatim>\<open>@massalabs/massa-as-sdk\<close>: the call primitive is a
    parameter of the model (the \<open>remote\<close> below), and every call is recorded in a log;
  \<^item> \<^verbatim>\<open>Args\<close>, \<^verbatim>\<open>NoArg\<close>, \<^verbatim>\<open>bytesToString\<close> and \<^verbatim>\<open>bytesToU64\<close> of \<^verbatim>\<open>@massalabs/as-types\<close>:
    modelled from the specification's sections 4.1, 4.2 and 7, each definition saying so;
  \<^item> \<^verbatim>\<open>String.split\<close> of the AssemblyScript standard library.
\<close>

subsection \<open>Machine types\<close>

type_synonym u8 = "8 word"
type_synonym u32 = "32 word"
type_synonym u64 = "64 word"

text \<open>\<^verbatim>\<open>StaticArray<u8>\<close>: a byte buffer.\<close>

type_synonym bytes = "u8 list"

text \<open>
  A string is the list of its characters. A HOL character is one byte, so a string stands
  for its UTF-8 byte sequence; the comma is the single byte 0x2C, which occurs in no
  multi-byte UTF-8 sequence.
\<close>

definition byte_of_char :: "char \<Rightarrow> u8" where
  "byte_of_char c = of_nat (of_char c)"

definition char_of_byte :: "u8 \<Rightarrow> char" where
  "char_of_byte b = char_of (unat b)"

text \<open>Little-endian fields: \<open>le_bytes k n\<close> is the \<open>k\<close> low bytes of \<open>n\<close>, lowest first.\<close>

fun le_bytes :: "nat \<Rightarrow> nat \<Rightarrow> bytes" where
  "le_bytes 0 n = []"
| "le_bytes (Suc k) n = of_nat (n mod 256) # le_bytes k (n div 256)"

fun le_value :: "bytes \<Rightarrow> nat" where
  "le_value [] = 0"
| "le_value (b # bs) = unat b + 256 * le_value bs"

subsection \<open>Errors\<close>

text \<open>
  A failing call aborts the method; so does a failing decode. \<open>CallFailed e\<close> carries the
  error \<open>e\<close> of the call primitive unchanged; \<open>DecodeError\<close> is the malformed-response
  failure of the specification's section 7.
\<close>

datatype 'e error = CallFailed 'e | DecodeError

subsection \<open>The encoder: \<^verbatim>\<open>Args\<close> and \<^verbatim>\<open>NoArg\<close>\<close>

record Args =
  serialized :: bytes

text \<open>
  Modelled from the spec: \<^verbatim>\<open>new Args()\<close> of as-types is missing. Section 4.1: an argument
  buffer is built incrementally, and encoding zero arguments produces the empty buffer.
\<close>

definition new_Args :: Args where
  "new_Args = \<lparr>serialized = []\<rparr>"

text \<open>
  Modelled from the spec: the constant \<^verbatim>\<open>NoArg\<close> of as-types is missing. Section 4.1:
  ``No-argument calls use a distinguished empty buffer, never a buffer containing a zero
  count field''.
\<close>

definition NoArg :: Args where
  "NoArg = new_Args"

text \<open>
  Modelled from the spec: \<^verbatim>\<open>Args.add\<close> of as-types at type string is missing. Section 4.1:
  ``String: encode length (fixed-width unsigned integer prefix) followed by raw UTF-8
  bytes''. The spec fixes no width for the prefix; the model takes four bytes, in the byte
  order the spec names for integers. The length is stored in the prefix as the 32-bit
  field holds it.
\<close>

definition add_string :: "Args \<Rightarrow> string \<Rightarrow> Args" where
  "add_string args s =
     args\<lparr>serialized := serialized args
            @ le_bytes 4 (unat (of_nat (length s) :: u32)) @ map byte_of_char s\<rparr>"

text \<open>
  Modelled from the spec: \<^verbatim>\<open>Args.add\<close> of as-types at type u64 is missing. Section 4.1:
  ``64-bit unsigned integer: encode as a fixed 8-byte little-endian [...] field''.
\<close>

definition add_u64 :: "Args \<Rightarrow> u64 \<Rightarrow> Args" where
  "add_u64 args n = args\<lparr>serialized := serialized args @ le_bytes 8 (unat n)\<rparr>"

subsection \<open>The decoder\<close>

text \<open>
  Modelled from the spec: \<^verbatim>\<open>bytesToString\<close> of as-types is missing. Section 4.2: ``read
  the length-prefixed string from the start of the buffer; if the buffer is empty, the
  decoded string is the empty string''. Section 7: ``a string length prefix exceeding the
  remaining buffer'' is a decode failure; a non-empty buffer too short to hold the prefix
  is one as well.
\<close>

definition bytesToString :: "bytes \<Rightarrow> 'e error + string" where
  "bytesToString bs =
     (if bs = [] then Inr []
      else if length bs < 4 then Inl DecodeError
      else let n = le_value (take 4 bs); body = drop 4 bs
           in if length body < n then Inl DecodeError
              else Inr (map char_of_byte (take n body)))"

text \<open>
  Modelled from the spec: \<^verbatim>\<open>bytesToU64\<close> of as-types is missing. Section 4.2: ``read
  exactly 8 bytes from the start of the buffer as the fixed-width integer''. Section 7:
  fewer bytes than the fixed width is a decode failure, with no truncation and no padding.
\<close>

definition bytesToU64 :: "bytes \<Rightarrow> 'e error + u64" where
  "bytesToU64 bs =
     (if length bs < 8 then Inl DecodeError
      else Inr (of_nat (le_value (take 8 bs))))"

text \<open>
  Modelled from the spec: the reading side of \<^verbatim>\<open>Args\<close> is missing. Section 4.2: the
  decoder inverts the encoder's format, given the expected type sequence. Each reader
  returns the value and the rest of the buffer.
\<close>

definition nextString :: "bytes \<Rightarrow> 'e error + (string \<times> bytes)" where
  "nextString bs =
     (if length bs < 4 then Inl DecodeError
      else let n = le_value (take 4 bs); body = drop 4 bs
           in if length body < n then Inl DecodeError
              else Inr (map char_of_byte (take n body), drop n body))"

definition nextU64 :: "bytes \<Rightarrow> 'e error + (u64 \<times> bytes)" where
  "nextU64 bs =
     (if length bs < 8 then Inl DecodeError
      else Inr (of_nat (le_value (take 8 bs)), drop 8 bs))"

text \<open>The schema [string, u64, u64] of \<^verbatim>\<open>transfer\<close>: three reads in order.\<close>

definition decode_string_u64_u64 :: "bytes \<Rightarrow> 'e error + (string \<times> u64 \<times> u64)" where
  "decode_string_u64_u64 bs =
     (case nextString bs of
        Inl e \<Rightarrow> Inl e
      | Inr (s, bs1) \<Rightarrow>
          (case nextU64 bs1 of
             Inl e \<Rightarrow> Inl e
           | Inr (a, bs2) \<Rightarrow>
               (case nextU64 bs2 of
                  Inl e \<Rightarrow> Inl e
                | Inr (b, bs3) \<Rightarrow> Inr (s, a, b))))"

subsection \<open>\<^verbatim>\<open>String.split\<close>\<close>

text \<open>
  \<^verbatim>\<open>s.split(',')\<close> with a separator of one character: the standard library scans for the
  separator, pushes the segment before each occurrence (empty segments too) and at the end
  the segment after the last one; a string without the separator, the empty string too,
  gives the one-element array holding it. \<open>split_from cur s sep\<close> is the scan with \<open>cur\<close>
  the segment read so far.
\<close>

fun split_from :: "string \<Rightarrow> string \<Rightarrow> char \<Rightarrow> string list" where
  "split_from cur [] sep = [cur]"
| "split_from cur (c # cs) sep =
     (if c = sep then cur # split_from [] cs sep else split_from (cur @ [c]) cs sep)"

definition split :: "string \<Rightarrow> char \<Rightarrow> string list" where
  "split s sep = split_from [] s sep"

subsection \<open>The call primitive\<close>

text \<open>\<^verbatim>\<open>Address\<close> of the SDK: an opaque value wrapping a string.\<close>

datatype Address = Address string

text \<open>
  What one call hands to the primitive: \<^verbatim>\<open>call(at, functionName, args, coins)\<close>, with
  the argument buffer as the bytes that travel.
\<close>

record call_request =
  target :: Address
  entryPoint :: string
  payload :: bytes
  coins :: u64

text \<open>
  The remote side is a parameter: given the calls made so far and the present one, it
  fails with an error of type \<open>'e\<close> or returns the response bytes.
\<close>

type_synonym 'e remote = "call_request list \<Rightarrow> call_request \<Rightarrow> 'e + bytes"

subsection \<open>The class\<close>

record SFTWrapper =
  origin :: Address

text \<open>The constructor stores the address.\<close>

definition constructor :: "Address \<Rightarrow> SFTWrapper" where
  "constructor at = \<lparr>origin = at\<rparr>"

text \<open>
  The state a method runs in: the object (\<^verbatim>\<open>this\<close>) and the log of the calls made to the
  primitive, oldest first.
\<close>

record world =
  this :: SFTWrapper
  calls :: "call_request list"

definition call ::
  "'e remote \<Rightarrow> Address \<Rightarrow> string \<Rightarrow> Args \<Rightarrow> u64 \<Rightarrow> world \<Rightarrow> ('e + bytes) \<times> world" where
  "call remote at functionName args amount w =
     (let rq = \<lparr>target = at, entryPoint = functionName,
                payload = serialized args, coins = amount\<rparr>
      in (remote (calls w) rq, w\<lparr>calls := calls w @ [rq]\<rparr>))"

text \<open>
  \<^verbatim>\<open>dec(call(...))\<close>: when the call fails the method fails with the call's error and
  \<^verbatim>\<open>dec\<close> does not run; otherwise the method's outcome is that of \<^verbatim>\<open>dec\<close> on the response.
\<close>

definition returning ::
  "(bytes \<Rightarrow> 'e error + 'a) \<Rightarrow> ('e + bytes) \<times> world \<Rightarrow> ('e error + 'a) \<times> world" where
  "returning dec r =
     (case r of
        (Inl e, w) \<Rightarrow> (Inl (CallFailed e), w)
      | (Inr bs, w) \<Rightarrow> (dec bs, w))"

definition name :: "'e remote \<Rightarrow> world \<Rightarrow> ('e error + string) \<times> world" where
  "name remote w =
     returning bytesToString (call remote (origin (this w)) ''name'' NoArg 0 w)"

definition symbol :: "'e remote \<Rightarrow> world \<Rightarrow> ('e error + string) \<times> world" where
  "symbol remote w =
     returning bytesToString (call remote (origin (this w)) ''symbol'' NoArg 0 w)"

definition tokenURI :: "'e remote \<Rightarrow> u64 \<Rightarrow> world \<Rightarrow> ('e error + string) \<times> world" where
  "tokenURI remote tokenId w =
     returning bytesToString
       (call remote (origin (this w)) ''tokenURI'' (add_u64 new_Args tokenId) 0 w)"

definition baseURI :: "'e remote \<Rightarrow> world \<Rightarrow> ('e error + string) \<times> world" where
  "baseURI remote w =
     returning bytesToString (call remote (origin (this w)) ''baseURI'' NoArg 0 w)"

definition totalSupply :: "'e remote \<Rightarrow> world \<Rightarrow> ('e error + u64) \<times> world" where
  "totalSupply remote w =
     returning bytesToU64 (call remote (origin (this w)) ''totalSupply'' NoArg 0 w)"

definition currentSupply :: "'e remote \<Rightarrow> world \<Rightarrow> ('e error + u64) \<times> world" where
  "currentSupply remote w =
     returning bytesToU64 (call remote (origin (this w)) ''currentSupply'' NoArg 0 w)"

text \<open>The four methods of type void drop the response.\<close>

definition mint :: "'e remote \<Rightarrow> string \<Rightarrow> world \<Rightarrow> ('e error + unit) \<times> world" where
  "mint remote addressTo w =
     returning (\<lambda>bs. Inr ())
       (call remote (origin (this w)) ''mint'' (add_string new_Args addressTo) 0 w)"

definition transfer ::
  "'e remote \<Rightarrow> string \<Rightarrow> u64 \<Rightarrow> u64 \<Rightarrow> world \<Rightarrow> ('e error + unit) \<times> world" where
  "transfer remote toAddress tokenId amount w =
     returning (\<lambda>bs. Inr ())
       (call remote (origin (this w)) ''transfer''
          (add_u64 (add_u64 (add_string new_Args toAddress) tokenId) amount) 0 w)"

definition approve ::
  "'e remote \<Rightarrow> u64 \<Rightarrow> string \<Rightarrow> world \<Rightarrow> ('e error + unit) \<times> world" where
  "approve remote tokenId address w =
     returning (\<lambda>bs. Inr ())
       (call remote (origin (this w)) ''approve''
          (add_string (add_u64 new_Args tokenId) address) 0 w)"

definition transferFrom ::
  "'e remote \<Rightarrow> string \<Rightarrow> string \<Rightarrow> u64 \<Rightarrow> world \<Rightarrow> ('e error + unit) \<times> world" where
  "transferFrom remote fromAddress toAddress tokenId w =
     returning (\<lambda>bs. Inr ())
       (call remote (origin (this w)) ''transferFrom''
          (add_u64 (add_string (add_string new_Args fromAddress) toAddress) tokenId) 0 w)"

text \<open>
  \<^verbatim>\<open>getApproved\<close>: the decoded string, when empty, gives the empty array; otherwise it is
  split at the commas.
\<close>

definition getApproved ::
  "'e remote \<Rightarrow> u64 \<Rightarrow> world \<Rightarrow> ('e error + string list) \<times> world" where
  "getApproved remote tokenId w =
     returning
       (\<lambda>bs. case bytesToString bs of
                Inl e \<Rightarrow> Inl e
              | Inr addresses \<Rightarrow>
                  if addresses = [] then Inr [] else Inr (split addresses CHR '',''))
       (call remote (origin (this w)) ''getApproved'' (add_u64 new_Args tokenId) 0 w)"

subsection \<open>The eleven methods as one surface\<close>

text \<open>
  A method of the class with its arguments, and what it returns; \<open>run\<close> is the method
  call. It lets a statement range over all the methods.
\<close>

datatype operation =
    Name
  | Symbol
  | TokenURI u64
  | BaseURI
  | TotalSupply
  | CurrentSupply
  | Mint string
  | Transfer string u64 u64
  | Approve u64 string
  | TransferFrom string string u64
  | GetApproved u64

datatype outcome = Str string | U64 u64 | Void | Strs "string list"

fun run :: "'e remote \<Rightarrow> operation \<Rightarrow> world \<Rightarrow> ('e error + outcome) \<times> world" where
  "run remote Name w = apfst (map_sum id Str) (name remote w)"
| "run remote Symbol w = apfst (map_sum id Str) (symbol remote w)"
| "run remote (TokenURI tokenId) w = apfst (map_sum id Str) (tokenURI remote tokenId w)"
| "run remote BaseURI w = apfst (map_sum id Str) (baseURI remote w)"
| "run remote TotalSupply w = apfst (map_sum id U64) (totalSupply remote w)"
| "run remote CurrentSupply w = apfst (map_sum id U64) (currentSupply remote w)"
| "run remote (Mint addressTo) w =
     apfst (map_sum id (\<lambda>u. Void)) (mint remote addressTo w)"
| "run remote (Transfer toAddress tokenId amount) w =
     apfst (map_sum id (\<lambda>u. Void)) (transfer remote toAddress tokenId amount w)"
| "run remote (Approve tokenId address) w =
     apfst (map_sum id (\<lambda>u. Void)) (approve remote tokenId address w)"
| "run remote (TransferFrom fromAddress toAddress tokenId) w =
     apfst (map_sum id (\<lambda>u. Void)) (transferFrom remote fromAddress toAddress tokenId w)"
| "run remote (GetApproved tokenId) w =
     apfst (map_sum id Strs) (getApproved remote tokenId w)"

subsection \<open>Vocabulary of the statements\<close>

text \<open>
  \<open>delimited segs sep\<close> is the string that lists the segments \<open>segs\<close> with \<open>sep\<close> between
  neighbours: what a comma-delimited string of addresses is. It occurs in statements only.
\<close>

fun delimited :: "string list \<Rightarrow> char \<Rightarrow> string" where
  "delimited [] sep = []"
| "delimited [s] sep = s"
| "delimited (s # t # ss) sep = s @ sep # delimited (t # ss) sep"

section \<open>Lemmas\<close>

subsection \<open>Fields, strings and the split\<close>

lemma length_le_bytes: "length (le_bytes k n) = k"
  by (induction k arbitrary: n) simp_all

lemma le_value_le_bytes: "n < 256 ^ k \<Longrightarrow> le_value (le_bytes k n) = n"
proof (induction k arbitrary: n)
  case 0 then show ?case by simp
next
  case (Suc k)
  have "n div 256 < 256 ^ k" using Suc.prems by (simp add: less_mult_imp_div_less mult.commute)
  then have "le_value (le_bytes k (n div 256)) = n div 256" by (rule Suc.IH)
  moreover have "unat (of_nat (n mod 256) :: u8) = n mod 256"
    by (simp add: unat_of_nat)
  ultimately show ?case by simp
qed

lemma char_of_byte_of_char: "char_of_byte (byte_of_char c) = c"
  by (simp add: char_of_byte_def byte_of_char_def unat_of_nat)

lemma nextU64_le_bytes: "nextU64 (le_bytes 8 (unat (n::u64)) @ rest) = Inr (n, rest)"
proof -
  have "unat n < 256 ^ 8" using unsigned_less [of n, where 'a = nat] by simp
  then show ?thesis
    by (simp add: nextU64_def length_le_bytes le_value_le_bytes)
qed

lemma prefix_value:
  assumes "length s < 2 ^ 32"
  shows "le_value (le_bytes 4 (unat (of_nat (length s) :: u32))) = length s"
proof -
  have "unat (of_nat (length s) :: u32) = length s"
    using assms by (simp add: unat_of_nat)
  moreover have "length s < 256 ^ 4" using assms by simp
  ultimately show ?thesis by (simp only: le_value_le_bytes)
qed

lemma nextString_encoded:
  assumes "length s < 2 ^ 32"
  shows "nextString (le_bytes 4 (unat (of_nat (length s) :: u32)) @ map byte_of_char s @ rest)
           = Inr (s, rest)"
  by (simp add: nextString_def prefix_value [OF assms] length_le_bytes comp_def
      char_of_byte_of_char)

lemma bytesToString_encoded:
  assumes "length s < 2 ^ 32"
  shows "bytesToString (le_bytes 4 (unat (of_nat (length s) :: u32)) @ map byte_of_char s @ rest)
           = Inr s"
proof -
  have "le_bytes 4 (unat (of_nat (length s) :: u32)) \<noteq> []"
    using length_le_bytes [of 4 "unat (of_nat (length s) :: u32)"] by auto
  then show ?thesis
  by (simp add: bytesToString_def prefix_value [OF assms] length_le_bytes comp_def
      char_of_byte_of_char)
qed

lemma split_from_not_Nil: "split_from cur s sep \<noteq> []"
  by (induction s arbitrary: cur) simp_all

lemma split_from_segment:
  "sep \<notin> set s \<Longrightarrow> split_from cur (s @ rest) sep = split_from (cur @ s) rest sep"
  by (induction s arbitrary: cur) auto

lemma split_from_delimited:
  "\<forall>s \<in> set (s0 # ss). sep \<notin> set s \<Longrightarrow>
     split_from cur (delimited (s0 # ss) sep) sep = (cur @ s0) # ss"
proof (induction ss arbitrary: s0 cur)
  case Nil
  then show ?case using split_from_segment [of sep s0 cur "[]"] by simp
next
  case (Cons t ss)
  have "split_from cur (s0 @ sep # delimited (t # ss) sep) sep
          = split_from (cur @ s0) (sep # delimited (t # ss) sep) sep"
    using Cons.prems by (simp add: split_from_segment)
  also have "\<dots> = (cur @ s0) # split_from [] (delimited (t # ss) sep) sep" by simp
  also have "split_from [] (delimited (t # ss) sep) sep = t # ss"
    using Cons.IH [of t "[]"] Cons.prems by simp
  finally show ?case by simp
qed

lemma length_split_from: "length (split_from cur s sep) = Suc (count_list s sep)"
  by (induction s arbitrary: cur) simp_all

lemma delimited_Cons: "ss \<noteq> [] \<Longrightarrow> delimited (s # ss) sep = s @ sep # delimited ss sep"
  by (cases ss) simp_all

lemma delimited_split_from: "delimited (split_from cur s sep) sep = cur @ s"
  by (induction s arbitrary: cur) (simp_all add: delimited_Cons split_from_not_Nil)

subsection \<open>Calls and outcomes\<close>

lemma fst_returning:
  "fst (returning dec r) = (case fst r of Inl e \<Rightarrow> Inl (CallFailed e) | Inr bs \<Rightarrow> dec bs)"
  by (simp add: returning_def split: prod.splits sum.splits)

lemma snd_returning: "snd (returning dec r) = snd r"
  by (simp add: returning_def split: prod.splits sum.splits)

lemma apfst_returning:
  "apfst (map_sum id g) (returning dec r) = returning (\<lambda>bs. map_sum id g (dec bs)) r"
  by (simp add: returning_def split: prod.splits sum.splits)

lemma fst_call:
  "fst (call remote at f args amount w)
     = remote (calls w) \<lparr>target = at, entryPoint = f, payload = serialized args, coins = amount\<rparr>"
  by (simp add: call_def Let_def)

lemma snd_call:
  "snd (call remote at f args amount w)
     = w\<lparr>calls := calls w @ [\<lparr>target = at, entryPoint = f, payload = serialized args, coins = amount\<rparr>]\<rparr>"
  by (simp add: call_def Let_def)

lemma run_shape:
  "\<exists>f args dec. run remote op w = returning dec (call remote (origin (this w)) f args 0 w)"
proof (cases op)
  case Name
  then show ?thesis by (simp add: name_def apfst_returning) blast
next
  case Symbol
  then show ?thesis by (simp add: symbol_def apfst_returning) blast
next
  case (TokenURI tokenId)
  then show ?thesis by (simp add: tokenURI_def apfst_returning) blast
next
  case BaseURI
  then show ?thesis by (simp add: baseURI_def apfst_returning) blast
next
  case TotalSupply
  then show ?thesis by (simp add: totalSupply_def apfst_returning) blast
next
  case CurrentSupply
  then show ?thesis by (simp add: currentSupply_def apfst_returning) blast
next
  case (Mint addressTo)
  then show ?thesis by (simp add: mint_def apfst_returning) blast
next
  case (Transfer toAddress tokenId amount)
  then show ?thesis by (simp add: transfer_def apfst_returning) blast
next
  case (Approve tokenId address)
  then show ?thesis by (simp add: approve_def apfst_returning) blast
next
  case (TransferFrom fromAddress toAddress tokenId)
  then show ?thesis by (simp add: transferFrom_def apfst_returning) blast
next
  case (GetApproved tokenId)
  then show ?thesis by (simp add: getApproved_def apfst_returning) blast
qed

lemma run_request:
  "\<exists>rq. snd (run remote op w) = w\<lparr>calls := calls w @ [rq]\<rparr>
     \<and> target rq = origin (this w) \<and> coins rq = 0
     \<and> (\<forall>e. remote (calls w) rq = Inl e \<longrightarrow> fst (run remote op w) = Inl (CallFailed e))"
proof -
  obtain f args dec
    where r: "run remote op w = returning dec (call remote (origin (this w)) f args 0 w)"
    using run_shape by blast
  let ?rq = "\<lparr>target = origin (this w), entryPoint = f, payload = serialized args, coins = 0\<rparr>"
  have "snd (run remote op w) = w\<lparr>calls := calls w @ [?rq]\<rparr>"
    by (simp add: r snd_returning snd_call)
  moreover have "\<forall>e. remote (calls w) ?rq = Inl e \<longrightarrow> fst (run remote op w) = Inl (CallFailed e)"
    by (simp add: r fst_returning fst_call)
  ultimately show ?thesis by (intro exI [of _ ?rq]) simp
qed

subsection \<open>Whole buffers\<close>

lemma nextU64_le_bytes_end: "nextU64 (le_bytes 8 (unat (n::u64))) = Inr (n, [])"
  using nextU64_le_bytes [of n "[]"] by simp

lemma bytesToString_serialized:
  assumes "length s < 2 ^ 32"
  shows "bytesToString (serialized (add_string new_Args s)) = Inr s"
  using bytesToString_encoded [OF assms, of "[]"] by (simp add: add_string_def new_Args_def)

section \<open>The claims\<close>

text \<open>
  In the statements, \<open>fst (call remote (origin (this w)) f args 0 w)\<close> is what the call
  primitive answers to the call a method makes in the state \<open>w\<close>: \<open>Inr bs\<close> for the response
  bytes \<open>bs\<close>, \<open>Inl e\<close> for a failure.
\<close>

text \<open>
  C1. For every token id: when the bytes that the call primitive returns to
  \<^verbatim>\<open>getApproved\<close> decode to the empty string, \<^verbatim>\<open>getApproved\<close> returns the empty list, of
  length 0, and not the one-element list holding the empty string. The statement needs
  nothing of the decoder but its result.
\<close>

theorem getApproved_empty_string:
  fixes remote :: "'e remote"
  assumes "fst (call remote (origin (this w)) ''getApproved'' (add_u64 new_Args tokenId) 0 w) = Inr bs"
    and "bytesToString bs = (Inr [] :: 'e error + string)"
  shows "fst (getApproved remote tokenId w) = Inr []
           \<and> fst (getApproved remote tokenId w) \<noteq> Inr [[]]"
  using assms by (simp add: getApproved_def fst_returning)

text \<open>The empty response, which decodes to the empty string, for token 5.\<close>

theorem getApproved_empty_string_witness:
  "fst (getApproved (\<lambda>log rq. Inr [] :: string + bytes) 5
          \<lparr>this = constructor (Address ''AS1sft''), calls = []\<rparr>) = Inr []"
  using getApproved_empty_string
    [of "\<lambda>log rq. Inr [] :: string + bytes" "\<lparr>this = constructor (Address ''AS1sft''), calls = []\<rparr>" 5 "[]"]
  by (simp add: fst_call bytesToString_def)

text \<open>
  C2. The methods with a string result (\<^verbatim>\<open>name\<close>, \<^verbatim>\<open>symbol\<close>, \<^verbatim>\<open>tokenURI\<close>, \<^verbatim>\<open>baseURI\<close>) return
  what \<open>bytesToString\<close> makes of the response, and \<^verbatim>\<open>getApproved\<close> builds its list from
  the string \<open>bytesToString\<close> makes of it. That decoder gives the empty string on the empty
  buffer, and on a buffer that starts with a length-prefixed string \<open>s\<close> (whatever follows
  it) it gives \<open>s\<close>, for every \<open>s\<close> whose length the prefix can hold.
\<close>

theorem string_results_decoded:
  fixes remote :: "'e remote"
  shows
  "(fst (call remote (origin (this w)) ''name'' NoArg 0 w) = Inr bs
      \<longrightarrow> fst (name remote w) = bytesToString bs)
   \<and> (fst (call remote (origin (this w)) ''symbol'' NoArg 0 w) = Inr bs
      \<longrightarrow> fst (symbol remote w) = bytesToString bs)
   \<and> (fst (call remote (origin (this w)) ''tokenURI'' (add_u64 new_Args tokenId) 0 w) = Inr bs
      \<longrightarrow> fst (tokenURI remote tokenId w) = bytesToString bs)
   \<and> (fst (call remote (origin (this w)) ''baseURI'' NoArg 0 w) = Inr bs
      \<longrightarrow> fst (baseURI remote w) = bytesToString bs)
   \<and> (fst (call remote (origin (this w)) ''getApproved'' (add_u64 new_Args tokenId) 0 w) = Inr bs
      \<longrightarrow> fst (getApproved remote tokenId w)
            = (case bytesToString bs of
                 Inl e \<Rightarrow> Inl e
               | Inr addresses \<Rightarrow>
                   if addresses = [] then Inr [] else Inr (split addresses CHR '','')))
   \<and> bytesToString [] = (Inr [] :: 'e error + string)
   \<and> (length s < 2 ^ 32
      \<longrightarrow> bytesToString (serialized (add_string new_Args s) @ rest)
            = (Inr s :: 'e error + string))"
proof -
  have "bytesToString [] = (Inr [] :: 'e error + string)"
    by (simp add: bytesToString_def)
  moreover have "length s < 2 ^ 32
      \<longrightarrow> bytesToString (serialized (add_string new_Args s) @ rest)
            = (Inr s :: 'e error + string)"
    by (simp add: add_string_def new_Args_def bytesToString_encoded)
  ultimately show ?thesis
    by (simp add: name_def symbol_def tokenURI_def baseURI_def getApproved_def fst_returning)
qed

text \<open>The empty response for the five methods, and a prefixed string with two bytes after it.\<close>

theorem string_results_decoded_witness:
  "fst (name (\<lambda>log rq. Inr [] :: string + bytes)
          \<lparr>this = constructor (Address ''AS1sft''), calls = []\<rparr>) = Inr []
   \<and> fst (symbol (\<lambda>log rq. Inr [] :: string + bytes)
          \<lparr>this = constructor (Address ''AS1sft''), calls = []\<rparr>) = Inr []
   \<and> fst (tokenURI (\<lambda>log rq. Inr [] :: string + bytes) 9
          \<lparr>this = constructor (Address ''AS1sft''), calls = []\<rparr>) = Inr []
   \<and> fst (baseURI (\<lambda>log rq. Inr [] :: string + bytes)
          \<lparr>this = constructor (Address ''AS1sft''), calls = []\<rparr>) = Inr []
   \<and> fst (getApproved (\<lambda>log rq. Inr [] :: string + bytes) 9
          \<lparr>this = constructor (Address ''AS1sft''), calls = []\<rparr>) = Inr []
   \<and> length ''MySFT'' < (2::nat) ^ 32
   \<and> bytesToString (serialized (add_string new_Args ''MySFT'') @ [1, 2])
       = (Inr ''MySFT'' :: string error + string)"
  using string_results_decoded
    [of "\<lambda>log rq. Inr [] :: string + bytes" "\<lparr>this = constructor (Address ''AS1sft''), calls = []\<rparr>"
        "[]" 9 "''MySFT''" "[1, 2]"]
  by (simp add: fst_call)

text \<open>
  C3. When the response has fewer than 8 bytes, the decoding of a 64-bit unsigned integer
  fails, and so do \<^verbatim>\<open>totalSupply\<close> and \<^verbatim>\<open>currentSupply\<close>: the outcome is the decode error,
  which is no value (nothing truncated, nothing padded) and is not the error of a failed
  call.
\<close>

theorem short_u64_response_fails:
  fixes remote :: "'e remote"
  assumes "length bs < 8"
  shows
  "(fst (call remote (origin (this w)) ''totalSupply'' NoArg 0 w) = Inr bs
      \<longrightarrow> fst (totalSupply remote w) = Inl DecodeError)
   \<and> (fst (call remote (origin (this w)) ''currentSupply'' NoArg 0 w) = Inr bs
      \<longrightarrow> fst (currentSupply remote w) = Inl DecodeError)
   \<and> bytesToU64 bs = (Inl DecodeError :: 'e error + u64)"
  using assms by (simp add: totalSupply_def currentSupply_def fst_returning bytesToU64_def)

text \<open>A response of three bytes.\<close>

theorem short_u64_response_fails_witness:
  "length [1, 2, 3 :: u8] < 8
   \<and> fst (totalSupply (\<lambda>log rq. Inr [1, 2, 3] :: string + bytes)
          \<lparr>this = constructor (Address ''AS1sft''), calls = []\<rparr>) = Inl DecodeError
   \<and> fst (currentSupply (\<lambda>log rq. Inr [1, 2, 3] :: string + bytes)
          \<lparr>this = constructor (Address ''AS1sft''), calls = []\<rparr>) = Inl DecodeError"
  using short_u64_response_fails
    [of "[1, 2, 3]" "\<lambda>log rq. Inr [1, 2, 3] :: string + bytes"
        "\<lparr>this = constructor (Address ''AS1sft''), calls = []\<rparr>"]
  by (simp add: fst_call)

text \<open>
  C4. Every one of the eleven methods makes exactly one call, \<open>rq\<close>, whatever happens; when
  the call primitive fails on it with \<open>e\<close>, the method fails with that same \<open>e\<close>: its
  outcome is neither a decoded value nor a decode error, and no second call is in the log.
\<close>

theorem call_failure_propagates:
  "\<exists>rq. calls (snd (run remote op w)) = calls w @ [rq]
     \<and> (\<forall>e. remote (calls w) rq = Inl e \<longrightarrow> fst (run remote op w) = Inl (CallFailed e))"
  using run_request [of remote op w] by auto

text \<open>A remote that is unreachable, and a transfer.\<close>

theorem call_failure_propagates_witness:
  "fst (run (\<lambda>log rq. Inl ''unreachable'' :: string + bytes) (Transfer ''addr1'' 5 3)
          \<lparr>this = constructor (Address ''AS1sft''), calls = []\<rparr>)
     = Inl (CallFailed ''unreachable'')
   \<and> length (calls (snd (run (\<lambda>log rq. Inl ''unreachable'' :: string + bytes)
          (Transfer ''addr1'' 5 3)
          \<lparr>this = constructor (Address ''AS1sft''), calls = []\<rparr>))) = 1"
  using call_failure_propagates
    [of "\<lambda>log rq. Inl ''unreachable'' :: string + bytes" "Transfer ''addr1'' 5 3"
        "\<lparr>this = constructor (Address ''AS1sft''), calls = []\<rparr>"]
  by auto

text \<open>
  C5. For every one of the eleven methods and all arguments, the coin amount of the call
  it makes is zero.
\<close>

theorem zero_coins:
  "\<exists>rq. calls (snd (run remote op w)) = calls w @ [rq] \<and> coins rq = 0"
  using run_request [of remote op w] by auto

text \<open>
  C6. The five methods without arguments (\<^verbatim>\<open>name\<close>, \<^verbatim>\<open>symbol\<close>, \<^verbatim>\<open>baseURI\<close>, \<^verbatim>\<open>totalSupply\<close>,
  \<^verbatim>\<open>currentSupply\<close>) send the empty buffer, that of \<open>NoArg\<close>, as payload: a buffer of no
  bytes, holding no count field.
\<close>

theorem no_argument_payload_empty:
  "calls (snd (name remote w))
     = calls w @ [\<lparr>target = origin (this w), entryPoint = ''name'', payload = [], coins = 0\<rparr>]
   \<and> calls (snd (symbol remote w))
     = calls w @ [\<lparr>target = origin (this w), entryPoint = ''symbol'', payload = [], coins = 0\<rparr>]
   \<and> calls (snd (baseURI remote w))
     = calls w @ [\<lparr>target = origin (this w), entryPoint = ''baseURI'', payload = [], coins = 0\<rparr>]
   \<and> calls (snd (totalSupply remote w))
     = calls w @ [\<lparr>target = origin (this w), entryPoint = ''totalSupply'', payload = [], coins = 0\<rparr>]
   \<and> calls (snd (currentSupply remote w))
     = calls w @ [\<lparr>target = origin (this w), entryPoint = ''currentSupply'', payload = [], coins = 0\<rparr>]
   \<and> serialized NoArg = []"
  by (simp add: name_def symbol_def baseURI_def totalSupply_def currentSupply_def
      snd_returning snd_call NoArg_def new_Args_def)

text \<open>
  C7. The payload of \<^verbatim>\<open>transfer\<close> holds the address, the token id and the amount in this
  order: read back against the schema [string, u64, u64] it gives (toAddress, tokenId,
  amount). The address is any string whose length the 32-bit prefix holds, which is every
  string a 32-bit WebAssembly memory has room for.
\<close>

theorem transfer_payload_roundtrip:
  assumes "length toAddress < 2 ^ 32"
  shows "\<exists>rq. calls (snd (transfer remote toAddress tokenId amount w)) = calls w @ [rq]
           \<and> decode_string_u64_u64 (payload rq) = Inr (toAddress, tokenId, amount)"
proof -
  have "decode_string_u64_u64
          (serialized (add_u64 (add_u64 (add_string new_Args toAddress) tokenId) amount))
        = Inr (toAddress, tokenId, amount)"
    by (simp add: decode_string_u64_u64_def add_u64_def add_string_def new_Args_def
        nextString_encoded [OF assms] nextU64_le_bytes nextU64_le_bytes_end)
  then show ?thesis
    by (simp add: transfer_def snd_returning snd_call)
qed

text \<open>The payload of transfer(``addr1'', 5, 3) reads back as (``addr1'', 5, 3).\<close>

theorem transfer_payload_roundtrip_witness:
  "length ''addr1'' < (2::nat) ^ 32
   \<and> (\<exists>rq. calls (snd (transfer (\<lambda>log rq. Inr [] :: string + bytes) ''addr1'' 5 3
                \<lparr>this = constructor (Address ''AS1sft''), calls = []\<rparr>)) = [rq]
           \<and> decode_string_u64_u64 (payload rq) = (Inr (''addr1'', 5, 3) :: unit error + _))"
  using transfer_payload_roundtrip
    [of "''addr1''" "\<lambda>log rq. Inr [] :: string + bytes" 5 3
        "\<lparr>this = constructor (Address ''AS1sft''), calls = []\<rparr>"]
  by simp

text \<open>
  C8. When the response decodes to a non-empty string that lists segments without commas,
  separated by commas, \<^verbatim>\<open>getApproved\<close> returns exactly these segments in their order.
\<close>

theorem getApproved_segments:
  fixes remote :: "'e remote"
  assumes "fst (call remote (origin (this w)) ''getApproved'' (add_u64 new_Args tokenId) 0 w) = Inr bs"
    and "bytesToString bs = (Inr addresses :: 'e error + string)"
    and "addresses \<noteq> []"
    and "addresses = delimited segs CHR '',''"
    and "\<forall>s \<in> set segs. CHR '','' \<notin> set s"
  shows "fst (getApproved remote tokenId w) = Inr segs"
proof -
  from assms(3,4) obtain s0 ss where segs: "segs = s0 # ss" by (cases segs) auto
  have "split addresses CHR '','' = segs"
    using split_from_delimited [of s0 ss "CHR '',''" "[]"] assms(4,5)
    by (simp add: split_def segs)
  then show ?thesis
    using assms(1,2,3) by (simp add: getApproved_def fst_returning)
qed

text \<open>A response that decodes to ``addrA,addrB,addrC''.\<close>

theorem getApproved_segments_witness:
  "fst (getApproved
          (\<lambda>log rq. Inr (serialized (add_string new_Args ''addrA,addrB,addrC'')) :: string + bytes) 7
          \<lparr>this = constructor (Address ''AS1sft''), calls = []\<rparr>)
     = Inr [''addrA'', ''addrB'', ''addrC'']"
proof -
  let ?remote = "\<lambda>log rq. Inr (serialized (add_string new_Args ''addrA,addrB,addrC'')) :: string + bytes"
  let ?w = "\<lparr>this = constructor (Address ''AS1sft''), calls = []\<rparr>"
  have h1: "fst (call ?remote (origin (this ?w)) ''getApproved'' (add_u64 new_Args 7) 0 ?w)
              = Inr (serialized (add_string new_Args ''addrA,addrB,addrC''))"
    by (simp add: fst_call)
  have h2: "bytesToString (serialized (add_string new_Args ''addrA,addrB,addrC''))
          = (Inr ''addrA,addrB,addrC'' :: string error + string)"
    by (rule bytesToString_serialized) simp
  have h3: "''addrA,addrB,addrC'' \<noteq> []" by simp
  have h4: "''addrA,addrB,addrC'' = delimited [''addrA'', ''addrB'', ''addrC''] CHR '',''"
    by simp
  have h5: "\<forall>s \<in> set [''addrA'', ''addrB'', ''addrC'']. CHR '','' \<notin> set s" by simp
  show ?thesis by (rule getApproved_segments [OF h1 h2 h3 h4 h5])
qed

text \<open>
  C9. Every one of the eleven methods calls the address the object holds, which is the
  one the constructor was given, and leaves the object as it was.
\<close>

theorem target_is_origin:
  "\<exists>rq. calls (snd (run remote op w)) = calls w @ [rq] \<and> target rq = origin (this w)
     \<and> this (snd (run remote op w)) = this w \<and> origin (constructor at) = at"
  using run_request [of remote op w] by (auto simp: constructor_def)

text \<open>
  C10. Only the empty decoded string is treated apart. For every non-empty decoded string
  \<^verbatim>\<open>getApproved\<close> returns the plain split at the commas: a list that is never empty, with
  one element more than the string has commas (so neighbouring, leading and trailing commas
  give empty elements), and whose elements joined by commas are the string again.
\<close>

theorem getApproved_plain_split:
  fixes remote :: "'e remote"
  assumes "fst (call remote (origin (this w)) ''getApproved'' (add_u64 new_Args tokenId) 0 w) = Inr bs"
    and "bytesToString bs = (Inr addresses :: 'e error + string)"
    and "addresses \<noteq> []"
  shows "fst (getApproved remote tokenId w) = Inr (split addresses CHR '','')
           \<and> split addresses CHR '','' \<noteq> []
           \<and> length (split addresses CHR '','') = Suc (count_list addresses CHR '','')
           \<and> delimited (split addresses CHR '','') CHR '','' = addresses"
  using assms
  by (simp add: getApproved_def fst_returning split_def split_from_not_Nil length_split_from
      delimited_split_from)

text \<open>Responses that decode to ``a,,b'' and to ``,''.\<close>

theorem getApproved_plain_split_witness:
  "fst (getApproved
          (\<lambda>log rq. Inr (serialized (add_string new_Args ''a,,b'')) :: string + bytes) 7
          \<lparr>this = constructor (Address ''AS1sft''), calls = []\<rparr>)
     = Inr [''a'', '''', ''b'']
   \<and> fst (getApproved
          (\<lambda>log rq. Inr (serialized (add_string new_Args '','')) :: string + bytes) 7
          \<lparr>this = constructor (Address ''AS1sft''), calls = []\<rparr>)
     = Inr ['''', '''']"
proof -
  have a: "bytesToString (serialized (add_string new_Args ''a,,b''))
          = (Inr ''a,,b'' :: string error + string)"
    by (rule bytesToString_serialized) simp
  have b: "bytesToString (serialized (add_string new_Args '',''))
          = (Inr '','' :: string error + string)"
    by (rule bytesToString_serialized) simp
  show ?thesis
    using a b
      getApproved_plain_split
        [of "\<lambda>log rq. Inr (serialized (add_string new_Args ''a,,b'')) :: string + bytes"
          "\<lparr>this = constructor (Address ''AS1sft''), calls = []\<rparr>" 7
          "serialized (add_string new_Args ''a,,b'')" "''a,,b''"]
      getApproved_plain_split
        [of "\<lambda>log rq. Inr (serialized (add_string new_Args '','')) :: string + bytes"
          "\<lparr>this = constructor (Address ''AS1sft''), calls = []\<rparr>" 7
          "serialized (add_string new_Args '','')" "'',''"]
    by (simp add: fst_call split_def)
qed

end
